theory Spec2Isabelle
  imports Main "HOL-Library.Word"
begin

section \<open>Data model of the gateway (src/networking/WebSocket/WebSocket.ts)\<close>

text \<open>
  A channel (a \<^verbatim>\<open>WS\<close> object of the transport library) is a handle. What the
  server reads from it is its \<^verbatim>\<open>readyState\<close> and the \<^verbatim>\<open>__client_id__\<close>
  property attached by \<^verbatim>\<open>handleConnection\<close>; both live in the state below.
\<close>

type_synonym sock = nat

type_synonym adapter = nat

datatype ready_state = CONNECTING | OPEN | CLOSING | CLOSED

text \<open>
  Modelled from the spec: the constants of \<^verbatim>\<open>Utils/Constants\<close>
  (\<^verbatim>\<open>WSCloseCodes\<close>, \<^verbatim>\<open>WSCloseMessage\<close>) are not part of the sources at hand. The
  spec lists eight pairwise distinct (code, reason) pairs; every call of the source
  passes \<^verbatim>\<open>WSCloseCodes.N\<close> together with \<^verbatim>\<open>WSCloseMessage.N\<close> for the same name
  \<^verbatim>\<open>N\<close>, so one constructor stands for the pair.
\<close>

datatype close_code =
    NOT_ALLOWED | NO_CLIENT_ID | NO_AUTH | SESSION_EXPIRED
  | DECODE_ERROR | ALREADY_CONNECTED | NOT_IDENTIFIED | SERVER_CLOSED

text \<open>
  Decoded messages are JSON values. The fields of an object are kept as the list of
  its own properties (keys unique). Numbers are only ever compared with the literal
  \<^verbatim>\<open>10\<close> and tested for being zero, so integers suffice.
\<close>

datatype json =
    JNull
  | JBool bool
  | JNum int
  | JStr string
  | JArr "json list"
  | JObj "(string \<times> json) list"

text \<open>
  Server to client messages: \<^verbatim>\<open>{op: HELLO, d: {ready}}\<close> and
  \<^verbatim>\<open>{t: READY, d: {client_id, access_token}}\<close>.
\<close>

datatype payload = Hello int | Ready string string

text \<open>
  Everything the server does to its collaborators is recorded, in order, as an event:
  \<^verbatim>\<open>ws.close(code, reason)\<close>, \<^verbatim>\<open>ws.send(JSON.stringify(data), noop)\<close>,
  \<^verbatim>\<open>client.kill(guildID)\<close> (the client is named by its channel),
  \<^verbatim>\<open>adapter.onVoiceStateUpdate(d)\<close>, \<^verbatim>\<open>adapter.onVoiceServerUpdate(d)\<close> and
  \<^verbatim>\<open>this.ws.close(noop)\<close> of the acceptor. Calls of \<^verbatim>\<open>debug\<close> are left out:
  \<^verbatim>\<open>debug\<close> wraps the hook in \<^verbatim>\<open>try/catch\<close> and nothing depends on it.
\<close>

datatype event =
    Close sock close_code
  | Send sock payload
  | Kill sock string
  | OnVoiceStateUpdate adapter json
  | OnVoiceServerUpdate adapter json
  | ServerClose

text \<open>
  What leaves a function by \<^verbatim>\<open>throw\<close>: the \<^verbatim>\<open>TypeError\<close> of the runtime, or
  whatever a collaborator (\<^verbatim>\<open>kill\<close>) throws.
\<close>

datatype js_error = TypeError | CollaboratorError

datatype outcome = Returned | Thrown js_error

record subscription =
  guildID :: string

text \<open>
  The fields of \<^verbatim>\<open>Client\<close> that the gateway touches: \<^verbatim>\<open>socket\<close>, \<^verbatim>\<open>id\<close>,
  \<^verbatim>\<open>subscriptions\<close> (a keyed collection, in iteration order) and \<^verbatim>\<open>adapters\<close>
  (a collection keyed by guild id).
\<close>

record client =
  socket :: sock
  secret :: string
  statusUpdateInterval :: nat
  id_client :: string
  subscriptions :: "(string \<times> subscription) list"
  adapters :: "string \<rightharpoonup> adapter"

text \<open>
  The module-level \<^verbatim>\<open>clients\<close> map is keyed by whatever \<^verbatim>\<open>getID\<close> returns, which
  is \<^verbatim>\<open>undefined\<close> (\<open>None\<close>) for a channel without the property.
  \<open>server_clients\<close> is \<^verbatim>\<open>this.ws.clients\<close>, in iteration order.
\<close>

record state =
  clients :: "string option \<rightharpoonup> client"
  readyState :: "sock \<Rightarrow> ready_state"
  client_id_prop :: "sock \<rightharpoonup> string"
  server_clients :: "sock list"
  trace :: "event list"

text \<open>Constructor arguments of the server (the HTTP server is not modelled).\<close>

record config =
  password :: string
  blockedIP :: "string list"
  updateStatusInterval :: nat

text \<open>
  What the functions obtain from outside the file: \<^verbatim>\<open>Util.parse\<close> (\<open>None\<close> is a
  failed decode), \<^verbatim>\<open>Date.now()\<close>, \<^verbatim>\<open>randomBytes(n)\<close>, whether \<^verbatim>\<open>kill\<close> of a
  guild throws, and the public identifier of a freshly constructed \<^verbatim>\<open>Client\<close>.
\<close>

record world =
  parse :: "string \<Rightarrow> json option"
  now :: int
  randomBytes :: "nat \<Rightarrow> 8 word list"
  kill_throws :: "string \<Rightarrow> bool"
  client_id_of :: "sock \<Rightarrow> string \<Rightarrow> nat \<Rightarrow> string"

text \<open>Header fields and source address of an upgrade request.\<close>

record request =
  x_forwarded_for :: "string option"
  remoteAddress :: "string option"
  client_id :: "string option"
  authorization :: "string option"

section \<open>Transport primitives\<close>

text \<open>
  \<^verbatim>\<open>ws.close\<close> of the transport library: a channel that is not yet closed becomes
  \<^verbatim>\<open>CLOSING\<close>; the call is recorded in any case.
\<close>

definition ws_close :: "state \<Rightarrow> sock \<Rightarrow> close_code \<Rightarrow> state" where
  "ws_close s ws code =
     s\<lparr>readyState := (readyState s)(ws := (if readyState s ws = CLOSED then CLOSED else CLOSING)),
       trace := trace s @ [Close ws code]\<rparr>"

definition send :: "state \<Rightarrow> sock \<Rightarrow> payload \<Rightarrow> state" where
  "send s ws data = s\<lparr>trace := trace s @ [Send ws data]\<rparr>"

definition getID :: "state \<Rightarrow> sock \<Rightarrow> string option" where
  "getID s ws = client_id_prop s ws"

section \<open>handleConnection\<close>

text \<open>\<^verbatim>\<open>request.headers["x-forwarded-for"] || request.socket.remoteAddress\<close>\<close>

definition source_address :: "request \<Rightarrow> string option" where
  "source_address req =
     (case x_forwarded_for req of
        None \<Rightarrow> remoteAddress req
      | Some a \<Rightarrow> if a = [] then remoteAddress req else Some a)"

text \<open>\<^verbatim>\<open>this.blockedIP?.includes(...)\<close>; an absent list behaves as the empty one.\<close>

definition is_blocked :: "config \<Rightarrow> request \<Rightarrow> bool" where
  "is_blocked cfg req =
     (case source_address req of None \<Rightarrow> False | Some a \<Rightarrow> a \<in> set (blockedIP cfg))"

text \<open>Lines 37 to 43: the courtesy close of the channel of a registered session.\<close>

definition expire_previous :: "state \<Rightarrow> string \<Rightarrow> state" where
  "expire_previous s clientID =
     (case clients s (Some clientID) of
        None \<Rightarrow> s
      | Some prev \<Rightarrow>
          if readyState s (socket prev) \<noteq> CLOSED
          then ws_close s (socket prev) SESSION_EXPIRED
          else s)"

definition handleConnection :: "config \<Rightarrow> world \<Rightarrow> sock \<Rightarrow> request \<Rightarrow> state \<Rightarrow> state" where
  "handleConnection cfg w ws req s =
     (if is_blocked cfg req then ws_close s ws NOT_ALLOWED
      else case client_id req of
        None \<Rightarrow> ws_close s ws NO_CLIENT_ID
      | Some clientID \<Rightarrow>
          if clientID = [] then ws_close s ws NO_CLIENT_ID
          else if password cfg \<noteq> [] \<and> authorization req \<noteq> Some (password cfg)
          then ws_close s ws NO_AUTH
          else
            let s1 = expire_previous s clientID;
                s2 = s1\<lparr>client_id_prop := (client_id_prop s1)(ws \<mapsto> clientID)\<rparr>
            in send s2 ws (Hello (now w)))"

section \<open>The close listener (lines 60 to 67)\<close>

text \<open>
  \<^verbatim>\<open>subclient.subscriptions.forEach((s) => subclient.kill(s.guildID))\<close>: the
  subscriptions are visited in order; a \<^verbatim>\<open>kill\<close> that throws ends the
  \<^verbatim>\<open>forEach\<close>, the exception leaving it.
\<close>

fun kill_each :: "world \<Rightarrow> client \<Rightarrow> subscription list \<Rightarrow> state \<Rightarrow> outcome \<times> state" where
  "kill_each w subclient [] s = (Returned, s)"
| "kill_each w subclient (sub # rest) s =
     (let s1 = s\<lparr>trace := trace s @ [Kill (socket subclient) (guildID sub)]\<rparr>
      in if kill_throws w (guildID sub) then (Thrown CollaboratorError, s1)
         else kill_each w subclient rest s1)"

text \<open>
  The listener closes over \<^verbatim>\<open>clientID\<close>. The \<^verbatim>\<open>try\<close> block encloses the lookup
  and the whole \<^verbatim>\<open>forEach\<close>; \<^verbatim>\<open>catch {}\<close> drops the exception, and
  \<^verbatim>\<open>clients.delete(clientID)\<close> follows.
\<close>

definition close_listener :: "world \<Rightarrow> string \<Rightarrow> state \<Rightarrow> state" where
  "close_listener w clientID s =
     (let s1 = (case clients s (Some clientID) of
                  None \<Rightarrow> s
                | Some subclient \<Rightarrow>
                    snd (kill_each w subclient (map snd (subscriptions subclient)) s))
      in s1\<lparr>clients := (clients s1)(Some clientID := None)\<rparr>)"

text \<open>
  The transport emits \<^verbatim>\<open>close\<close> on a channel once it is closed. The listener is
  registered by the run of \<^verbatim>\<open>handleConnection\<close> that attached the identity to the
  channel, with that identity; a channel that was rejected has neither.
\<close>

definition emit_close :: "world \<Rightarrow> sock \<Rightarrow> state \<Rightarrow> state" where
  "emit_close w ws s =
     (let s1 = s\<lparr>readyState := (readyState s)(ws := CLOSED)\<rparr>
      in case getID s1 ws of
           None \<Rightarrow> s1
         | Some clientID \<Rightarrow> close_listener w clientID s1)"

section \<open>The session secret (line 84)\<close>

text \<open>
  \<^verbatim>\<open>Buffer.from(id)\<close> encodes the string as UTF-8. The characters of an identity
  taken from a header are code units below 256: one byte below 128, two bytes above.
\<close>

definition utf8_char :: "char \<Rightarrow> 8 word list" where
  "utf8_char c =
     (let n = (of_char c :: nat)
      in if n < 128 then [of_nat n]
         else [of_nat (192 + n div 64), of_nat (128 + n mod 64)])"

definition utf8 :: "string \<Rightarrow> 8 word list" where
  "utf8 str = concat (map utf8_char str)"

definition base64_alphabet :: string where
  "base64_alphabet = ''ABCDEFGHIJKLMNOPQRSTUVWXYZabcdefghijklmnopqrstuvwxyz0123456789+/''"

definition b64_char :: "nat \<Rightarrow> char" where
  "b64_char n = base64_alphabet ! n"

fun base64 :: "8 word list \<Rightarrow> string" where
  "base64 [] = []"
| "base64 [a] =
     [b64_char (unat a div 4), b64_char (unat a mod 4 * 16), CHR ''='', CHR ''='']"
| "base64 [a, b] =
     [b64_char (unat a div 4), b64_char (unat a mod 4 * 16 + unat b div 16),
      b64_char (unat b mod 16 * 4), CHR ''='']"
| "base64 (a # b # c # rest) =
     [b64_char (unat a div 4), b64_char (unat a mod 4 * 16 + unat b div 16),
      b64_char (unat b mod 16 * 4 + unat c div 64), b64_char (unat c mod 64)] @ base64 rest"

text \<open>
  A number in a template literal: \<^verbatim>\<open>Date.now()\<close> is an integer number of
  milliseconds, printed in decimal.
\<close>

definition digit_char :: "nat \<Rightarrow> char" where
  "digit_char n = ''0123456789'' ! n"

fun digits_of :: "nat \<Rightarrow> string" where
  "digits_of n = (if n < 10 then [digit_char n] else digits_of (n div 10) @ [digit_char (n mod 10)])"

definition number_toString :: "int \<Rightarrow> string" where
  "number_toString i = (if i < 0 then CHR ''-'' # digits_of (nat (- i)) else digits_of (nat i))"

definition hex_char :: "nat \<Rightarrow> char" where
  "hex_char n = ''0123456789abcdef'' ! n"

definition hex_byte :: "8 word \<Rightarrow> string" where
  "hex_byte b = [hex_char (unat b div 16), hex_char (unat b mod 16)]"

definition toString_hex :: "8 word list \<Rightarrow> string" where
  "toString_hex bs = concat (map hex_byte bs)"

declare digits_of.simps [simp del]

definition secret_key :: "world \<Rightarrow> string \<Rightarrow> string" where
  "secret_key w clientID =
     base64 (utf8 clientID) @ ''.'' @ number_toString (now w) @ ''.'' @ toString_hex (randomBytes w 32)"

section \<open>handleWSMessage\<close>

text \<open>
  Modelled from the spec: the class \<^verbatim>\<open>Client\<close> (\<^verbatim>\<open>audio/Client\<close>) is not part of
  the sources at hand. The spec describes the construction of a session from
  (channel, secret, status interval), yielding a public identifier; a new session
  holds no subscription and no adapter.
\<close>

definition new_Client :: "world \<Rightarrow> sock \<Rightarrow> string \<Rightarrow> nat \<Rightarrow> client" where
  "new_Client w ws key interval =
     \<lparr>socket = ws, secret = key, statusUpdateInterval = interval,
      id_client = client_id_of w ws key interval,
      subscriptions = [], adapters = Map.empty\<rparr>"

text \<open>JavaScript truthiness of a decoded value, as tested by \<^verbatim>\<open>!\<close> and \<^verbatim>\<open>&&\<close>.\<close>

fun truthy :: "json \<Rightarrow> bool" where
  "truthy JNull = False"
| "truthy (JBool b) = b"
| "truthy (JNum n) = (n \<noteq> 0)"
| "truthy (JStr str) = (str \<noteq> [])"
| "truthy (JArr xs) = True"
| "truthy (JObj fs) = True"

definition truthy_opt :: "json option \<Rightarrow> bool" where
  "truthy_opt v = (case v of None \<Rightarrow> False | Some x \<Rightarrow> truthy x)"

text \<open>
  Reading a property of a value that is neither \<^verbatim>\<open>undefined\<close> nor \<^verbatim>\<open>null\<close>: an
  object yields its field or \<^verbatim>\<open>undefined\<close>; the other values have none of the
  properties read here.
\<close>

fun get_prop :: "json \<Rightarrow> string \<Rightarrow> json option" where
  "get_prop (JObj fs) k = map_of fs k"
| "get_prop v k = None"

text \<open>
  \<^verbatim>\<open>client.adapters.get(key)\<close>: the collection is keyed by guild id strings, so a
  key that is not a string finds nothing.
\<close>

definition adapter_get :: "client \<Rightarrow> json option \<Rightarrow> adapter option" where
  "adapter_get c key = (case key of Some (JStr g) \<Rightarrow> adapters c g | _ \<Rightarrow> None)"

text \<open>\<^verbatim>\<open>message.d.user_id === this.getID(client.socket)\<close>\<close>

definition strict_eq_id :: "json option \<Rightarrow> string option \<Rightarrow> bool" where
  "strict_eq_id v i = (case i of None \<Rightarrow> v = None | Some x \<Rightarrow> v = Some (JStr x))"

text \<open>
  Lines 105 to 112. \<^verbatim>\<open>message.d.guild_id\<close> is read first: it throws a
  \<^verbatim>\<open>TypeError\<close> when \<^verbatim>\<open>message.d\<close> is \<^verbatim>\<open>undefined\<close> or \<^verbatim>\<open>null\<close>.
\<close>

definition voice_state_update :: "client \<Rightarrow> json option \<Rightarrow> state \<Rightarrow> outcome \<times> state" where
  "voice_state_update c d s =
     (case d of
        None \<Rightarrow> (Thrown TypeError, s)
      | Some dv \<Rightarrow>
          if dv = JNull then (Thrown TypeError, s)
          else if truthy_opt (get_prop dv ''guild_id'') \<and> truthy_opt (get_prop dv ''session_id'')
                  \<and> strict_eq_id (get_prop dv ''user_id'') (getID s (socket c))
          then (case adapter_get c (get_prop dv ''guild_id'') of
                  None \<Rightarrow> (Returned, s)
                | Some a \<Rightarrow> (Returned, s\<lparr>trace := trace s @ [OnVoiceStateUpdate a dv]\<rparr>))
          else (Returned, s))"

text \<open>Lines 113 to 118.\<close>

definition voice_server_update :: "client \<Rightarrow> json option \<Rightarrow> state \<Rightarrow> outcome \<times> state" where
  "voice_server_update c d s =
     (case d of
        None \<Rightarrow> (Thrown TypeError, s)
      | Some dv \<Rightarrow>
          if dv = JNull then (Thrown TypeError, s)
          else (case adapter_get c (get_prop dv ''guild_id'') of
                  None \<Rightarrow> (Returned, s)
                | Some a \<Rightarrow> (Returned, s\<lparr>trace := trace s @ [OnVoiceServerUpdate a dv]\<rparr>)))"

text \<open>
  \<^verbatim>\<open>switch (message.t)\<close> with the values of \<^verbatim>\<open>GatewayDispatchEvents\<close>
  (discord-api-types).
\<close>

definition VoiceStateUpdate :: string where
  "VoiceStateUpdate = ''VOICE_STATE_UPDATE''"

definition VoiceServerUpdate :: string where
  "VoiceServerUpdate = ''VOICE_SERVER_UPDATE''"

definition route :: "client \<Rightarrow> json \<Rightarrow> state \<Rightarrow> outcome \<times> state" where
  "route c message s =
     (if get_prop message ''t'' = Some (JStr VoiceStateUpdate)
      then voice_state_update c (get_prop message ''d'') s
      else if get_prop message ''t'' = Some (JStr VoiceServerUpdate)
      then voice_server_update c (get_prop message ''d'') s
      else (Returned, s))"

text \<open>
  Lines 78 to 96. \<^verbatim>\<open>Buffer.from\<close> throws a \<^verbatim>\<open>TypeError\<close> on \<^verbatim>\<open>undefined\<close>.
\<close>

definition identify :: "config \<Rightarrow> world \<Rightarrow> sock \<Rightarrow> state \<Rightarrow> outcome \<times> state" where
  "identify cfg w ws s =
     (if clients s (getID s ws) \<noteq> None then (Returned, ws_close s ws ALREADY_CONNECTED)
      else case getID s ws of
        None \<Rightarrow> (Thrown TypeError, s)
      | Some i \<Rightarrow>
          let key = secret_key w i;
              wsClient = new_Client w ws key (updateStatusInterval cfg);
              s1 = s\<lparr>clients := (clients s)(getID s ws \<mapsto> wsClient)\<rparr>
          in (Returned, send s1 ws (Ready (id_client wsClient) key)))"

definition handleWSMessage :: "config \<Rightarrow> world \<Rightarrow> sock \<Rightarrow> string \<Rightarrow> state \<Rightarrow> outcome \<times> state" where
  "handleWSMessage cfg w ws msg s =
     (case parse w msg of
        None \<Rightarrow> (Returned, ws_close s ws DECODE_ERROR)
      | Some message \<Rightarrow>
          if \<not> truthy message then (Returned, ws_close s ws DECODE_ERROR)
          else if get_prop message ''op'' = Some (JNum 10) then identify cfg w ws s
          else (case clients s (getID s ws) of
                  None \<Rightarrow> (Returned, ws_close s ws NOT_IDENTIFIED)
                | Some c \<Rightarrow> route c message s))"

section \<open>close\<close>

fun close_each :: "sock list \<Rightarrow> state \<Rightarrow> state" where
  "close_each [] s = s"
| "close_each (c # cs) s =
     close_each cs (if readyState s c \<noteq> OPEN then s else ws_close s c SERVER_CLOSED)"

definition close :: "state \<Rightarrow> state" where
  "close s =
     (let s1 = close_each (server_clients s) s;
          s2 = s1\<lparr>trace := trace s1 @ [ServerClose]\<rparr>
      in s2\<lparr>clients := Map.empty\<rparr>)"

section \<open>Collaborators outside the gateway, and concrete inputs\<close>

text \<open>
  Modelled from the spec: subscriptions and adapters are created by other parts of
  the application, outside the file at hand; the gateway only enumerates them. This is
  such a creation, for the session registered under an identity.
\<close>

definition subscribe :: "string \<Rightarrow> string \<Rightarrow> adapter \<Rightarrow> state \<Rightarrow> state" where
  "subscribe i g a s =
     (case clients s (Some i) of
        None \<Rightarrow> s
      | Some c \<Rightarrow>
          s\<lparr>clients := (clients s)(Some i \<mapsto>
               c\<lparr>subscriptions := subscriptions c @ [(g, \<lparr>guildID = g\<rparr>)],
                 adapters := (adapters c)(g \<mapsto> a)\<rparr>)\<rparr>)"

text \<open>Raw messages, as the peer writes them.\<close>

definition dq :: string where
  "dq = [CHR 0x22]"

definition raw_identify :: string where
  "raw_identify = ''{'' @ dq @ ''op'' @ dq @ '':10}''"

definition raw_garbage :: string where
  "raw_garbage = ''{op''"

definition raw_state_no_d :: string where
  "raw_state_no_d = ''{'' @ dq @ ''t'' @ dq @ '':'' @ dq @ ''VOICE_STATE_UPDATE'' @ dq @ ''}''"

definition raw_voice :: "string \<Rightarrow> string \<Rightarrow> string \<Rightarrow> string \<Rightarrow> string" where
  "raw_voice t g sid u =
     ''{'' @ dq @ ''t'' @ dq @ '':'' @ dq @ t @ dq @ '','' @ dq @ ''d'' @ dq @ '':{''
       @ dq @ ''guild_id'' @ dq @ '':'' @ dq @ g @ dq @ '',''
       @ dq @ ''session_id'' @ dq @ '':'' @ dq @ sid @ dq @ '',''
       @ dq @ ''user_id'' @ dq @ '':'' @ dq @ u @ dq @ ''}}''"

definition json_voice :: "string \<Rightarrow> string \<Rightarrow> string \<Rightarrow> string \<Rightarrow> json" where
  "json_voice t g sid u =
     JObj [(''t'', JStr t),
           (''d'', JObj [(''guild_id'', JStr g), (''session_id'', JStr sid), (''user_id'', JStr u)])]"

text \<open>A decoder that knows the messages above and fails on everything else.\<close>

definition ex_parse :: "string \<Rightarrow> json option" where
  "ex_parse raw =
     map_of
       [(raw_identify, JObj [(''op'', JNum 10)]),
        (''null'', JNull),
        (raw_state_no_d, JObj [(''t'', JStr ''VOICE_STATE_UPDATE'')]),
        (raw_voice ''VOICE_STATE_UPDATE'' ''g1'' ''s1'' ''abc'',
           json_voice ''VOICE_STATE_UPDATE'' ''g1'' ''s1'' ''abc''),
        (raw_voice ''VOICE_STATE_UPDATE'' ''g1'' ''s1'' ''mallory'',
           json_voice ''VOICE_STATE_UPDATE'' ''g1'' ''s1'' ''mallory''),
        (raw_voice ''VOICE_SERVER_UPDATE'' ''g9'' ''s1'' ''abc'',
           json_voice ''VOICE_SERVER_UPDATE'' ''g9'' ''s1'' ''abc'')]
       raw"

definition ex_world :: world where
  "ex_world =
     \<lparr>parse = ex_parse, now = 1700000000000, randomBytes = (\<lambda>n. replicate n 171),
      kill_throws = (\<lambda>g. False), client_id_of = (\<lambda>ws key interval. ''abc'')\<rparr>"

definition ex_world_failing :: world where
  "ex_world_failing = ex_world\<lparr>kill_throws := (\<lambda>g. g = ''g1'')\<rparr>"

definition ex_cfg :: config where
  "ex_cfg = \<lparr>password = ''hunter2'', blockedIP = [''10.0.0.66''], updateStatusInterval = 1000\<rparr>"

definition ex_request :: request where
  "ex_request =
     \<lparr>x_forwarded_for = None, remoteAddress = Some ''127.0.0.1'',
      client_id = Some ''abc'', authorization = Some ''hunter2''\<rparr>"

text \<open>No session, channels 1, 2 and 3 open and not yet handled.\<close>

definition ex_init :: state where
  "ex_init =
     \<lparr>clients = Map.empty, readyState = (\<lambda>ws. OPEN), client_id_prop = Map.empty,
      server_clients = [1, 2, 3], trace = []\<rparr>"

text \<open>
  Identity \<^verbatim>\<open>abc\<close> connected and identified on channel 1, with subscriptions to
  the guilds \<^verbatim>\<open>g1\<close> and \<^verbatim>\<open>g2\<close>.
\<close>

definition ex_session :: client where
  "ex_session =
     \<lparr>socket = 1, secret = ''k'', statusUpdateInterval = 1000, id_client = ''abc'',
      subscriptions = [(''g1'', \<lparr>guildID = ''g1''\<rparr>), (''g2'', \<lparr>guildID = ''g2''\<rparr>)],
      adapters = [''g1'' \<mapsto> 7, ''g2'' \<mapsto> 8]\<rparr>"

definition ex_identified :: state where
  "ex_identified =
     \<lparr>clients = [Some ''abc'' \<mapsto> ex_session], readyState = (\<lambda>ws. OPEN),
      client_id_prop = [1 \<mapsto> ''abc''], server_clients = [1, 2, 3], trace = []\<rparr>"

text \<open>
  Two channels for the identity \<^verbatim>\<open>abc\<close>: channel 1 connects and never identifies,
  channel 2 connects and identifies, and a subscription to guild \<^verbatim>\<open>g5\<close> is created
  for the session of channel 2.
\<close>

definition ex_race :: state where
  "ex_race =
     subscribe ''abc'' ''g5'' 9
       (snd (handleWSMessage ex_cfg ex_world 2 raw_identify
          (handleConnection ex_cfg ex_world 2 ex_request
             (handleConnection ex_cfg ex_world 1 ex_request ex_init))))"

section \<open>Basic facts about the primitives\<close>

lemma ws_close_fields:
  "clients (ws_close s ws code) = clients s"
  "client_id_prop (ws_close s ws code) = client_id_prop s"
  "server_clients (ws_close s ws code) = server_clients s"
  "trace (ws_close s ws code) = trace s @ [Close ws code]"
  by (simp_all add: ws_close_def)

lemma ws_close_readyState:
  "readyState (ws_close s ws code) c =
     (if c = ws then (if readyState s ws = CLOSED then CLOSED else CLOSING) else readyState s c)"
  by (simp add: ws_close_def)

lemma ex_parse_simps:
  "parse ex_world raw_identify = Some (JObj [(''op'', JNum 10)])"
  "parse ex_world ''null'' = Some JNull"
  "parse ex_world raw_garbage = None"
  "parse ex_world raw_state_no_d = Some (JObj [(''t'', JStr ''VOICE_STATE_UPDATE'')])"
  "parse ex_world (raw_voice ''VOICE_STATE_UPDATE'' ''g1'' ''s1'' ''abc'') =
     Some (json_voice ''VOICE_STATE_UPDATE'' ''g1'' ''s1'' ''abc'')"
  "parse ex_world (raw_voice ''VOICE_STATE_UPDATE'' ''g1'' ''s1'' ''mallory'') =
     Some (json_voice ''VOICE_STATE_UPDATE'' ''g1'' ''s1'' ''mallory'')"
  "parse ex_world (raw_voice ''VOICE_SERVER_UPDATE'' ''g9'' ''s1'' ''abc'') =
     Some (json_voice ''VOICE_SERVER_UPDATE'' ''g9'' ''s1'' ''abc'')"
  by (simp_all add: ex_world_def ex_parse_def raw_identify_def raw_garbage_def
      raw_state_no_d_def raw_voice_def dq_def)

section \<open>Admission of a connection\<close>

text \<open>
  Claim C5. The admission checks of \<^verbatim>\<open>handleConnection\<close> run in the order blocked
  address, client identity, password. A source address in the blocked set closes the
  channel with \<^verbatim>\<open>NOT_ALLOWED\<close>; otherwise a missing or empty client identity closes
  it with \<^verbatim>\<open>NO_CLIENT_ID\<close>; otherwise a non-empty password that the authorization
  value does not equal closes it with \<^verbatim>\<open>NO_AUTH\<close>. In each case the resulting state
  is the old one after that single \<^verbatim>\<open>close\<close> call: one more event, the same
  registry, no identity attached to any channel.
\<close>

theorem handleConnection_admission:
  "(is_blocked cfg req \<longrightarrow>
      handleConnection cfg w ws req s = ws_close s ws NOT_ALLOWED) \<and>
   (\<not> is_blocked cfg req \<and> (client_id req = None \<or> client_id req = Some []) \<longrightarrow>
      handleConnection cfg w ws req s = ws_close s ws NO_CLIENT_ID) \<and>
   (\<not> is_blocked cfg req \<and> client_id req = Some i \<and> i \<noteq> [] \<and>
    password cfg \<noteq> [] \<and> authorization req \<noteq> Some (password cfg) \<longrightarrow>
      handleConnection cfg w ws req s = ws_close s ws NO_AUTH) \<and>
   (\<forall>code. clients (ws_close s ws code) = clients s \<and>
      client_id_prop (ws_close s ws code) = client_id_prop s \<and>
      trace (ws_close s ws code) = trace s @ [Close ws code]) \<and>
   distinct [NOT_ALLOWED, NO_CLIENT_ID, NO_AUTH]"
proof -
  have blocked: "handleConnection cfg w ws req s = ws_close s ws NOT_ALLOWED"
    if "is_blocked cfg req"
    using that by (simp add: handleConnection_def)
  have no_id: "handleConnection cfg w ws req s = ws_close s ws NO_CLIENT_ID"
    if "\<not> is_blocked cfg req" and "client_id req = None \<or> client_id req = Some []"
    using that by (auto simp: handleConnection_def)
  have no_auth: "handleConnection cfg w ws req s = ws_close s ws NO_AUTH"
    if "\<not> is_blocked cfg req" and "client_id req = Some i" and "i \<noteq> []"
      and "password cfg \<noteq> []" and "authorization req \<noteq> Some (password cfg)"
    using that by (simp add: handleConnection_def)
  have only_close: "clients (ws_close s ws code) = clients s \<and>
      client_id_prop (ws_close s ws code) = client_id_prop s \<and>
      trace (ws_close s ws code) = trace s @ [Close ws code]" for code
    by (simp add: ws_close_fields)
  have "distinct [NOT_ALLOWED, NO_CLIENT_ID, NO_AUTH]"
    by simp
  with blocked no_id no_auth only_close show ?thesis
    by blast
qed

text \<open>
  The four rejections at concrete requests: a blocked forwarded address, no identity,
  an empty identity, a wrong password.
\<close>

theorem handleConnection_admission_witness:
  "handleConnection ex_cfg ex_world 2 (ex_request\<lparr>x_forwarded_for := Some ''10.0.0.66''\<rparr>) ex_init =
     ws_close ex_init 2 NOT_ALLOWED \<and>
   handleConnection ex_cfg ex_world 2 (ex_request\<lparr>client_id := None\<rparr>) ex_init =
     ws_close ex_init 2 NO_CLIENT_ID \<and>
   handleConnection ex_cfg ex_world 2 (ex_request\<lparr>client_id := Some []\<rparr>) ex_init =
     ws_close ex_init 2 NO_CLIENT_ID \<and>
   handleConnection ex_cfg ex_world 2 (ex_request\<lparr>authorization := Some ''guess''\<rparr>) ex_init =
     ws_close ex_init 2 NO_AUTH \<and>
   clients (ws_close ex_init 2 NO_CLIENT_ID) = Map.empty \<and>
   trace (ws_close ex_init 2 NO_CLIENT_ID) = [Close 2 NO_CLIENT_ID]"
proof -
  have b: "is_blocked ex_cfg (ex_request\<lparr>x_forwarded_for := Some ''10.0.0.66''\<rparr>)"
    "\<not> is_blocked ex_cfg (ex_request\<lparr>client_id := None\<rparr>)"
    "\<not> is_blocked ex_cfg (ex_request\<lparr>client_id := Some []\<rparr>)"
    "\<not> is_blocked ex_cfg (ex_request\<lparr>authorization := Some ''guess''\<rparr>)"
    by (simp_all add: is_blocked_def source_address_def ex_cfg_def ex_request_def)
  have r: "client_id (ex_request\<lparr>authorization := Some ''guess''\<rparr>) = Some ''abc''"
    "password ex_cfg = ''hunter2''"
    by (simp_all add: ex_request_def ex_cfg_def)
  show ?thesis
    using b r
      handleConnection_admission [where cfg = ex_cfg and w = ex_world and ws = 2 and s = ex_init
        and req = "ex_request\<lparr>x_forwarded_for := Some ''10.0.0.66''\<rparr>"]
      handleConnection_admission [where cfg = ex_cfg and w = ex_world and ws = 2 and s = ex_init
        and req = "ex_request\<lparr>client_id := None\<rparr>"]
      handleConnection_admission [where cfg = ex_cfg and w = ex_world and ws = 2 and s = ex_init
        and req = "ex_request\<lparr>client_id := Some []\<rparr>"]
      handleConnection_admission [where cfg = ex_cfg and w = ex_world and ws = 2 and s = ex_init
        and req = "ex_request\<lparr>authorization := Some ''guess''\<rparr>" and i = "''abc''"]
    by (simp add: ex_init_def)
qed

section \<open>Takeover\<close>

text \<open>
  Claim C2. When a connection for identity \<open>X\<close> is accepted while the registry holds a
  session for \<open>X\<close> whose channel is not closed, \<^verbatim>\<open>handleConnection\<close> first calls
  \<^verbatim>\<open>close\<close> on the old channel with \<^verbatim>\<open>SESSION_EXPIRED\<close> and then sends
  \<^verbatim>\<open>HELLO\<close> on the new one; these are its only two events, in this order. When it
  returns, the old channel is closing, the new channel carries the identity, and the
  registry is the one it was: it holds exactly one session for \<open>X\<close>, the old one, until
  the close event of a channel of \<open>X\<close> removes it.
\<close>

theorem takeover_expires_before_hello:
  assumes "\<not> is_blocked cfg req" and "client_id req = Some X" and "X \<noteq> []"
    and "password cfg = [] \<or> authorization req = Some (password cfg)"
    and "clients s (Some X) = Some c" and "readyState s (socket c) \<noteq> CLOSED"
  shows "trace (handleConnection cfg w ws req s) =
           trace s @ [Close (socket c) SESSION_EXPIRED, Send ws (Hello (now w))] \<and>
         readyState (handleConnection cfg w ws req s) (socket c) = CLOSING \<and>
         getID (handleConnection cfg w ws req s) ws = Some X \<and>
         clients (handleConnection cfg w ws req s) = clients s \<and>
         clients (handleConnection cfg w ws req s) (Some X) = Some c"
proof -
  let ?s1 = "ws_close s (socket c) SESSION_EXPIRED"
  have "handleConnection cfg w ws req s =
          send (?s1\<lparr>client_id_prop := (client_id_prop ?s1)(ws \<mapsto> X)\<rparr>) ws (Hello (now w))"
    using assms by (auto simp: handleConnection_def expire_previous_def Let_def)
  then show ?thesis
    using assms(5,6)
    by (simp add: send_def getID_def ws_close_fields ws_close_readyState)
qed

text \<open>
  The identified identity \<^verbatim>\<open>abc\<close> of channel 1 connects again on channel 2.
\<close>

theorem takeover_expires_before_hello_witness:
  "trace (handleConnection ex_cfg ex_world 2 ex_request ex_identified) =
     [Close 1 SESSION_EXPIRED, Send 2 (Hello 1700000000000)] \<and>
   readyState (handleConnection ex_cfg ex_world 2 ex_request ex_identified) 1 = CLOSING \<and>
   clients (handleConnection ex_cfg ex_world 2 ex_request ex_identified) (Some ''abc'') =
     Some ex_session"
proof -
  have a: "\<not> is_blocked ex_cfg ex_request"
    by (simp add: is_blocked_def source_address_def ex_cfg_def ex_request_def)
  have b: "client_id ex_request = Some ''abc''" "''abc'' \<noteq> []"
    by (simp_all add: ex_request_def)
  have p: "password ex_cfg = [] \<or> authorization ex_request = Some (password ex_cfg)"
    by (simp add: ex_cfg_def ex_request_def)
  have c: "clients ex_identified (Some ''abc'') = Some ex_session"
    by (simp add: ex_identified_def)
  have r: "readyState ex_identified (socket ex_session) \<noteq> CLOSED"
    by (simp add: ex_identified_def)
  show ?thesis
    using takeover_expires_before_hello [OF a b p c r, of ex_world 2]
    by (simp add: ex_identified_def ex_session_def ex_world_def)
qed

section \<open>The close event of a channel\<close>

lemma kill_each_fields:
  "clients (snd (kill_each w c subs s)) = clients s"
  "readyState (snd (kill_each w c subs s)) = readyState s"
  "client_id_prop (snd (kill_each w c subs s)) = client_id_prop s"
  "server_clients (snd (kill_each w c subs s)) = server_clients s"
  by (induction subs arbitrary: s) (simp_all add: Let_def)

lemma kill_each_trace:
  "trace (snd (kill_each w c subs s)) =
     trace s @ map (\<lambda>sub. Kill (socket c) (guildID sub))
       (takeWhile (\<lambda>sub. \<not> kill_throws w (guildID sub)) subs @
        take 1 (dropWhile (\<lambda>sub. \<not> kill_throws w (guildID sub)) subs))"
  by (induction subs arbitrary: s) (simp_all add: Let_def)

lemma kill_each_trace_all:
  "\<forall>sub\<in>set subs. \<not> kill_throws w (guildID sub) \<Longrightarrow>
   trace (snd (kill_each w c subs s)) = trace s @ map (\<lambda>sub. Kill (socket c) (guildID sub)) subs"
  by (induction subs arbitrary: s) (simp_all add: Let_def)

lemma kill_each_outcome:
  "fst (kill_each w c subs s) =
     (if \<exists>sub\<in>set subs. kill_throws w (guildID sub) then Thrown CollaboratorError else Returned)"
  by (induction subs arbitrary: s) (simp_all add: Let_def)

lemma close_listener_clients:
  "clients (close_listener w X s) = (clients s)(Some X := None)"
  by (simp add: close_listener_def Let_def kill_each_fields split: option.split)

lemma close_listener_trace:
  "trace (close_listener w X s) =
     (case clients s (Some X) of
        None \<Rightarrow> trace s
      | Some c \<Rightarrow> trace (snd (kill_each w c (map snd (subscriptions c)) s)))"
  by (simp add: close_listener_def Let_def split: option.split)

lemma emit_close_eq:
  "getID s ws = Some X \<Longrightarrow>
   emit_close w ws s = close_listener w X (s\<lparr>readyState := (readyState s)(ws := CLOSED)\<rparr>)"
  by (simp add: emit_close_def getID_def Let_def)

text \<open>
  Claim C1, as stated, fails: a \<^verbatim>\<open>kill\<close> that throws ends the \<^verbatim>\<open>forEach\<close>, so
  the subscriptions after it are not killed. Identity \<^verbatim>\<open>abc\<close> holds subscriptions to
  \<^verbatim>\<open>g1\<close> and \<^verbatim>\<open>g2\<close>, in this order, and \<^verbatim>\<open>kill\<close> of \<^verbatim>\<open>g1\<close> throws: when its
  channel closes, \<^verbatim>\<open>kill\<close> is invoked for \<^verbatim>\<open>g1\<close> only.
\<close>

theorem close_kills_all_counterexample:
  "getID ex_identified 1 = Some ''abc'' \<and>
   clients ex_identified (Some ''abc'') = Some ex_session \<and>
   map guildID (map snd (subscriptions ex_session)) = [''g1'', ''g2''] \<and>
   kill_throws ex_world_failing ''g1'' \<and>
   trace (emit_close ex_world_failing 1 ex_identified) = [Kill 1 ''g1''] \<and>
   Kill 1 ''g2'' \<notin> set (trace (emit_close ex_world_failing 1 ex_identified))"
  by (simp add: emit_close_def close_listener_def getID_def ex_identified_def ex_session_def
      ex_world_failing_def ex_world_def Let_def)

text \<open>
  Claim C1, amended. When a channel tagged with identity \<open>X\<close> closes and the registry
  holds a session for \<open>X\<close>, \<^verbatim>\<open>kill\<close> is invoked once for each subscription of that
  session, in iteration order, up to and including the first one whose \<^verbatim>\<open>kill\<close>
  throws; when no \<^verbatim>\<open>kill\<close> throws, that is once for every subscription. The
  exception is swallowed, and the identity \<open>X\<close> is removed from the registry in every
  case, the other entries staying as they are.
\<close>

theorem close_kills_until_failure:
  assumes "getID s ws = Some X" and "clients s (Some X) = Some c"
  shows "trace (emit_close w ws s) =
           trace s @ map (\<lambda>sub. Kill (socket c) (guildID sub))
             (takeWhile (\<lambda>sub. \<not> kill_throws w (guildID sub)) (map snd (subscriptions c)) @
              take 1 (dropWhile (\<lambda>sub. \<not> kill_throws w (guildID sub)) (map snd (subscriptions c)))) \<and>
         ((\<forall>sub\<in>set (map snd (subscriptions c)). \<not> kill_throws w (guildID sub)) \<longrightarrow>
            trace (emit_close w ws s) =
              trace s @ map (\<lambda>sub. Kill (socket c) (guildID sub)) (map snd (subscriptions c))) \<and>
         clients (emit_close w ws s) = (clients s)(Some X := None)"
proof -
  let ?s1 = "s\<lparr>readyState := (readyState s)(ws := CLOSED)\<rparr>"
  let ?subs = "map snd (subscriptions c)"
  have e: "emit_close w ws s = close_listener w X ?s1"
    using assms(1) by (rule emit_close_eq)
  have t: "trace (emit_close w ws s) = trace (snd (kill_each w c ?subs ?s1))"
    unfolding e using assms(2) by (simp add: close_listener_trace)
  have "trace (emit_close w ws s) =
           trace s @ map (\<lambda>sub. Kill (socket c) (guildID sub))
             (takeWhile (\<lambda>sub. \<not> kill_throws w (guildID sub)) ?subs @
              take 1 (dropWhile (\<lambda>sub. \<not> kill_throws w (guildID sub)) ?subs))"
    unfolding t kill_each_trace by simp
  moreover have "trace (emit_close w ws s) =
              trace s @ map (\<lambda>sub. Kill (socket c) (guildID sub)) ?subs"
    if "\<forall>sub\<in>set ?subs. \<not> kill_throws w (guildID sub)"
    unfolding t using that by (simp only: kill_each_trace_all) simp
  moreover have "clients (emit_close w ws s) = (clients s)(Some X := None)"
    unfolding e by (simp add: close_listener_clients)
  ultimately show ?thesis by blast
qed

text \<open>
  The channel of \<^verbatim>\<open>abc\<close> closes: both subscriptions are killed when no \<^verbatim>\<open>kill\<close>
  throws, the first only when \<^verbatim>\<open>kill\<close> of \<^verbatim>\<open>g1\<close> throws, and the identity is gone.
\<close>

theorem close_kills_until_failure_witness:
  "trace (emit_close ex_world 1 ex_identified) = [Kill 1 ''g1'', Kill 1 ''g2''] \<and>
   trace (emit_close ex_world_failing 1 ex_identified) = [Kill 1 ''g1''] \<and>
   clients (emit_close ex_world_failing 1 ex_identified) (Some ''abc'') = None"
proof -
  have i: "getID ex_identified 1 = Some ''abc''"
    by (simp add: getID_def ex_identified_def)
  have c: "clients ex_identified (Some ''abc'') = Some ex_session"
    by (simp add: ex_identified_def)
  show ?thesis
    using close_kills_until_failure [OF i c, of ex_world]
      close_kills_until_failure [OF i c, of ex_world_failing]
    by (simp add: ex_session_def ex_world_failing_def ex_world_def ex_identified_def)
qed

text \<open>
  Claim C10. The close listener deletes by identity, not by channel: after the close
  event of a channel tagged with \<open>X\<close> the registry holds no entry for \<open>X\<close>, whatever
  channel the entry was bound to. When the entry belongs to another channel (a newer
  connection for \<open>X\<close> that identified before this close event), the subscriptions of
  that session are killed as well, all of them when no \<^verbatim>\<open>kill\<close> throws.
\<close>

theorem close_deletes_by_identity:
  assumes "getID s ws = Some X"
  shows "clients (emit_close w ws s) (Some X) = None \<and>
         (\<forall>c. clients s (Some X) = Some c \<and> socket c \<noteq> ws \<and>
              (\<forall>sub\<in>set (map snd (subscriptions c)). \<not> kill_throws w (guildID sub)) \<longrightarrow>
              trace (emit_close w ws s) =
                trace s @ map (\<lambda>sub. Kill (socket c) (guildID sub)) (map snd (subscriptions c)))"
proof -
  let ?s1 = "s\<lparr>readyState := (readyState s)(ws := CLOSED)\<rparr>"
  have e: "emit_close w ws s = close_listener w X ?s1"
    using assms by (rule emit_close_eq)
  have "clients (emit_close w ws s) (Some X) = None"
    unfolding e by (simp add: close_listener_clients)
  moreover have "trace (emit_close w ws s) =
       trace s @ map (\<lambda>sub. Kill (socket c) (guildID sub)) (map snd (subscriptions c))"
    if "clients s (Some X) = Some c"
      and "\<forall>sub\<in>set (map snd (subscriptions c)). \<not> kill_throws w (guildID sub)" for c
  proof -
    have "trace (emit_close w ws s) = trace (snd (kill_each w c (map snd (subscriptions c)) ?s1))"
      unfolding e using that(1) by (simp add: close_listener_trace)
    also have "\<dots> = trace ?s1 @ map (\<lambda>sub. Kill (socket c) (guildID sub)) (map snd (subscriptions c))"
      using that(2) by (rule kill_each_trace_all)
    finally show ?thesis by simp
  qed
  ultimately show ?thesis by blast
qed

text \<open>
  The state \<open>ex_race\<close> computed: the session of \<^verbatim>\<open>abc\<close> belongs to channel 2, and
  channel 1 carries the same identity.
\<close>

lemma ex_race_eq:
  "ex_race =
     \<lparr>clients = [Some ''abc'' \<mapsto>
         \<lparr>socket = 2, secret = secret_key ex_world ''abc'', statusUpdateInterval = 1000,
          id_client = ''abc'', subscriptions = [(''g5'', \<lparr>guildID = ''g5''\<rparr>)],
          adapters = [''g5'' \<mapsto> 9]\<rparr>],
      readyState = (\<lambda>ws. OPEN),
      client_id_prop = [1 \<mapsto> ''abc'', 2 \<mapsto> ''abc''],
      server_clients = [1, 2, 3],
      trace = [Send 1 (Hello 1700000000000), Send 2 (Hello 1700000000000),
               Send 2 (Ready ''abc'' (secret_key ex_world ''abc''))]\<rparr>"
proof -
  have w: "now ex_world = 1700000000000" "client_id_of ex_world = (\<lambda>ws key interval. ''abc'')"
    by (simp_all add: ex_world_def)
  show ?thesis
    unfolding ex_race_def
    by (simp add: handleConnection_def handleWSMessage_def identify_def subscribe_def
        ex_parse_simps is_blocked_def source_address_def expire_previous_def send_def
        getID_def new_Client_def ex_cfg_def ex_request_def ex_init_def w Let_def)
qed

text \<open>
  Channel 1 closes in \<open>ex_race\<close>: the session of channel 2 loses its subscription and
  its registry entry, while channel 2 stays open.
\<close>

theorem close_deletes_by_identity_witness:
  "getID ex_race 1 = Some ''abc'' \<and>
   map_option socket (clients ex_race (Some ''abc'')) = Some 2 \<and>
   clients (emit_close ex_world 1 ex_race) (Some ''abc'') = None \<and>
   trace (emit_close ex_world 1 ex_race) = trace ex_race @ [Kill 2 ''g5'']"
proof -
  let ?c = "\<lparr>socket = 2, secret = secret_key ex_world ''abc'', statusUpdateInterval = 1000,
          id_client = ''abc'', subscriptions = [(''g5'', \<lparr>guildID = ''g5''\<rparr>)],
          adapters = [''g5'' \<mapsto> 9]\<rparr>"
  have i: "getID ex_race 1 = Some ''abc''"
    by (simp add: getID_def ex_race_eq)
  have c: "clients ex_race (Some ''abc'') = Some ?c"
    by (simp add: ex_race_eq)
  have k: "\<forall>sub\<in>set (map snd (subscriptions ?c)). \<not> kill_throws ex_world (guildID sub)"
    by (simp add: ex_world_def)
  have "socket ?c \<noteq> 1" by simp
  with c k show ?thesis
    using i close_deletes_by_identity [OF i, of ex_world] by simp
qed

section \<open>Decoding and identification\<close>

text \<open>
  Claim C7. A raw message that does not decode (the decoder fails, or yields a value
  that counts as false) makes \<^verbatim>\<open>handleWSMessage\<close> close the channel with
  \<^verbatim>\<open>DECODE_ERROR\<close> and return: this \<^verbatim>\<open>close\<close> call is its only event, and the
  registry is untouched.
\<close>

theorem decode_failure_closes:
  assumes "parse w msg = None \<or> (\<exists>m. parse w msg = Some m \<and> \<not> truthy m)"
  shows "handleWSMessage cfg w ws msg s = (Returned, ws_close s ws DECODE_ERROR) \<and>
         clients (ws_close s ws DECODE_ERROR) = clients s \<and>
         trace (ws_close s ws DECODE_ERROR) = trace s @ [Close ws DECODE_ERROR]"
  using assms by (auto simp: handleWSMessage_def ws_close_fields)

text \<open>A truncated text and the text \<^verbatim>\<open>null\<close>, sent on the identified channel 1.\<close>

theorem decode_failure_closes_witness:
  "handleWSMessage ex_cfg ex_world 1 raw_garbage ex_identified =
     (Returned, ws_close ex_identified 1 DECODE_ERROR) \<and>
   handleWSMessage ex_cfg ex_world 1 ''null'' ex_identified =
     (Returned, ws_close ex_identified 1 DECODE_ERROR) \<and>
   clients (ws_close ex_identified 1 DECODE_ERROR) (Some ''abc'') = Some ex_session \<and>
   trace (ws_close ex_identified 1 DECODE_ERROR) = [Close 1 DECODE_ERROR]"
proof -
  have a: "parse ex_world raw_garbage = None \<or>
             (\<exists>m. parse ex_world raw_garbage = Some m \<and> \<not> truthy m)"
    by (simp add: ex_parse_simps)
  have b: "parse ex_world ''null'' = None \<or>
             (\<exists>m. parse ex_world ''null'' = Some m \<and> \<not> truthy m)"
    by (simp add: ex_parse_simps)
  show ?thesis
    using decode_failure_closes [OF a, of ex_cfg 1 ex_identified]
      decode_failure_closes [OF b, of ex_cfg 1 ex_identified]
    by (simp add: ex_identified_def)
qed

text \<open>
  Claim C6. An identify message (\<^verbatim>\<open>op\<close> 10) on a channel whose identity is present
  in the registry closes that channel with \<^verbatim>\<open>ALREADY_CONNECTED\<close> and returns: this
  \<^verbatim>\<open>close\<close> call is the only event, nothing is dispatched, and the registry with the
  session in it is the one it was.
\<close>

theorem identify_twice_rejected:
  assumes "parse w msg = Some m" and "truthy m"
    and "get_prop m ''op'' = Some (JNum 10)"
    and "clients s (getID s ws) = Some c"
  shows "handleWSMessage cfg w ws msg s = (Returned, ws_close s ws ALREADY_CONNECTED) \<and>
         clients (ws_close s ws ALREADY_CONNECTED) = clients s \<and>
         trace (ws_close s ws ALREADY_CONNECTED) = trace s @ [Close ws ALREADY_CONNECTED]"
  using assms by (simp add: handleWSMessage_def identify_def ws_close_fields)

text \<open>The identified channel 1 identifies again.\<close>

theorem identify_twice_rejected_witness:
  "handleWSMessage ex_cfg ex_world 1 raw_identify ex_identified =
     (Returned, ws_close ex_identified 1 ALREADY_CONNECTED) \<and>
   clients (ws_close ex_identified 1 ALREADY_CONNECTED) (Some ''abc'') = Some ex_session \<and>
   trace (ws_close ex_identified 1 ALREADY_CONNECTED) = [Close 1 ALREADY_CONNECTED]"
proof -
  have p: "parse ex_world raw_identify = Some (JObj [(''op'', JNum 10)])"
    by (simp add: ex_parse_simps)
  have t: "truthy (JObj [(''op'', JNum 10)])"
    by simp
  have o: "get_prop (JObj [(''op'', JNum 10)]) ''op'' = Some (JNum 10)"
    by simp
  have c: "clients ex_identified (getID ex_identified 1) = Some ex_session"
    by (simp add: getID_def ex_identified_def)
  show ?thesis
    using identify_twice_rejected [OF p t o c, of ex_cfg]
    by (simp add: ex_identified_def)
qed

subsection \<open>The characters of the secret\<close>

lemma b64_char_no_dot: "n < 64 \<Longrightarrow> CHR ''.'' \<noteq> b64_char n"
proof -
  assume "n < 64"
  then have "base64_alphabet ! n \<in> set base64_alphabet"
    by (intro nth_mem) (simp add: base64_alphabet_def)
  moreover have "CHR ''.'' \<notin> set base64_alphabet"
    by (simp add: base64_alphabet_def)
  ultimately show ?thesis
    unfolding b64_char_def by metis
qed

lemma byte_bound: "unat (a :: 8 word) < 256"
  using unsigned_less [of a] by simp

lemma base64_no_dot: "CHR ''.'' \<notin> set (base64 bs)"
proof (induction bs rule: base64.induct)
  case 1
  show ?case by simp
next
  case (2 a)
  have "unat a div 4 < 64" "unat a mod 4 * 16 < 64"
    using byte_bound [of a] by arith+
  then show ?case by (simp add: b64_char_no_dot)
next
  case (3 a b)
  have "unat a div 4 < 64" "unat a mod 4 * 16 + unat b div 16 < 64" "unat b mod 16 * 4 < 64"
    using byte_bound [of a] byte_bound [of b] by arith+
  then show ?case by (simp add: b64_char_no_dot)
next
  case (4 a b c rest)
  have "unat a div 4 < 64" "unat a mod 4 * 16 + unat b div 16 < 64"
    "unat b mod 16 * 4 + unat c div 64 < 64" "unat c mod 64 < 64"
    using byte_bound [of a] byte_bound [of b] byte_bound [of c] by arith+
  then show ?case using 4 by (simp add: b64_char_no_dot)
qed

lemma digits_of_small: "n < 10 \<Longrightarrow> digits_of n = [digit_char n]"
  by (simp add: digits_of.simps [of n])

lemma digits_of_large: "10 \<le> n \<Longrightarrow> digits_of n = digits_of (n div 10) @ [digit_char (n mod 10)]"
  by (simp add: digits_of.simps [of n])

lemma digit_char_no_dot: "n < 10 \<Longrightarrow> CHR ''.'' \<noteq> digit_char n"
proof -
  assume "n < 10"
  then have "''0123456789'' ! n \<in> set ''0123456789''"
    by (intro nth_mem) simp
  moreover have "CHR ''.'' \<notin> set ''0123456789''"
    by simp
  ultimately show ?thesis
    unfolding digit_char_def by metis
qed

lemma digits_of_no_dot: "CHR ''.'' \<notin> set (digits_of n)"
proof (induction n rule: digits_of.induct)
  case (1 n)
  show ?case
  proof (cases "n < 10")
    case True
    then show ?thesis
      by (simp add: digits_of_small digit_char_no_dot)
  next
    case False
    have "n mod 10 < 10" by simp
    then have "CHR ''.'' \<noteq> digit_char (n mod 10)"
      by (rule digit_char_no_dot)
    with False 1 show ?thesis
      by (simp add: digits_of_large)
  qed
qed

lemma number_toString_no_dot: "CHR ''.'' \<notin> set (number_toString i)"
  by (simp add: number_toString_def digits_of_no_dot)

lemma hex_char_no_dot: "n < 16 \<Longrightarrow> CHR ''.'' \<noteq> hex_char n"
proof -
  assume "n < 16"
  then have "''0123456789abcdef'' ! n \<in> set ''0123456789abcdef''"
    by (intro nth_mem) simp
  moreover have "CHR ''.'' \<notin> set ''0123456789abcdef''"
    by simp
  ultimately show ?thesis
    unfolding hex_char_def by metis
qed

lemma hex_byte_no_dot: "CHR ''.'' \<notin> set (hex_byte b)"
proof -
  have "unat b div 16 < 16" "unat b mod 16 < 16"
    using byte_bound [of b] by arith+
  then show ?thesis
    by (simp add: hex_byte_def hex_char_no_dot)
qed

lemma toString_hex_no_dot: "CHR ''.'' \<notin> set (toString_hex bs)"
  by (simp add: toString_hex_def hex_byte_no_dot)

lemma length_toString_hex: "length (toString_hex bs) = 2 * length bs"
  by (induction bs) (simp_all add: toString_hex_def hex_byte_def)

lemma count_dots_secret_key: "count_list (secret_key w i) CHR ''.'' = 2"
proof -
  have "count_list (base64 (utf8 i)) CHR ''.'' = 0"
    "count_list (number_toString (now w)) CHR ''.'' = 0"
    "count_list (toString_hex (randomBytes w 32)) CHR ''.'' = 0"
    by (simp_all add: count_list_0_iff base64_no_dot number_toString_no_dot toString_hex_no_dot)
  then show ?thesis
    by (simp add: secret_key_def)
qed

lemma ex_secret_key:
  "secret_key ex_world ''abc'' = ''YWJj.1700000000000.'' @ concat (replicate 32 ''ab'')"
proof -
  have "base64 (utf8 ''abc'') = ''YWJj''"
    by code_simp
  moreover have "number_toString 1700000000000 = ''1700000000000''"
    by (simp add: number_toString_def digits_of_small digits_of_large digit_char_def)
  moreover have "toString_hex (replicate 32 171) = concat (replicate 32 ''ab'')"
    by code_simp
  ultimately show ?thesis
    by (simp only: secret_key_def ex_world_def world.simps) simp
qed

text \<open>
  Claim C9. A successful identification (a decoded message with \<^verbatim>\<open>op\<close> 10 on a
  channel whose identity is not in the registry) registers a new session for the
  channel and sends \<^verbatim>\<open>READY\<close> on it, with the public identifier of that session as
  \<^verbatim>\<open>client_id\<close> and its secret as \<^verbatim>\<open>access_token\<close>. The secret is the base64 text
  of the identity, a dot, the timestamp in decimal, a dot, and the 32 random bytes in
  hexadecimal; it is not empty and holds exactly two dots.
\<close>

theorem identify_ready:
  assumes "parse w msg = Some m" and "truthy m"
    and "get_prop m ''op'' = Some (JNum 10)"
    and "getID s ws = Some i" and "clients s (Some i) = None"
  shows "\<exists>c. handleWSMessage cfg w ws msg s =
           (Returned, s\<lparr>clients := (clients s)(Some i \<mapsto> c),
                        trace := trace s @ [Send ws (Ready (id_client c) (secret c))]\<rparr>) \<and>
         socket c = ws \<and>
         secret c = base64 (utf8 i) @ ''.'' @ number_toString (now w) @ ''.'' @
                    toString_hex (randomBytes w 32) \<and>
         secret c \<noteq> [] \<and> count_list (secret c) CHR ''.'' = 2"
proof -
  let ?c = "new_Client w ws (secret_key w i) (updateStatusInterval cfg)"
  have sec: "secret ?c = secret_key w i"
    by (simp add: new_Client_def)
  show ?thesis
  proof (intro exI [of _ ?c] conjI)
    show "handleWSMessage cfg w ws msg s =
           (Returned, s\<lparr>clients := (clients s)(Some i \<mapsto> ?c),
                        trace := trace s @ [Send ws (Ready (id_client ?c) (secret ?c))]\<rparr>)"
      using assms by (simp add: handleWSMessage_def identify_def send_def new_Client_def Let_def)
    show "socket ?c = ws"
      by (simp add: new_Client_def)
    show "secret ?c = base64 (utf8 i) @ ''.'' @ number_toString (now w) @ ''.'' @
                    toString_hex (randomBytes w 32)"
      unfolding sec by (rule secret_key_def)
    show "secret ?c \<noteq> []"
      unfolding sec by (simp add: secret_key_def)
    show "count_list (secret ?c) CHR ''.'' = 2"
      unfolding sec by (rule count_dots_secret_key)
  qed
qed

text \<open>
  A session that \<^verbatim>\<open>handleWSMessage\<close> registers is bound to the identifying
  channel, which carries the identity the session is registered under.
\<close>

lemma identify_registers_own_channel:
  assumes "parse w msg = Some m" and "truthy m"
    and "get_prop m ''op'' = Some (JNum 10)"
    and "getID s ws = Some i" and "clients s (Some i) = None"
  shows "\<exists>c. clients (snd (handleWSMessage cfg w ws msg s)) (Some i) = Some c \<and>
             getID (snd (handleWSMessage cfg w ws msg s)) (socket c) = Some i"
  using assms
  by (simp add: handleWSMessage_def identify_def send_def new_Client_def getID_def Let_def)

text \<open>
  Identity \<^verbatim>\<open>abc\<close> connects on channel 2 and identifies: the token starts with
  \<^verbatim>\<open>YWJj\<close>, the base64 text of \<^verbatim>\<open>abc\<close>.
\<close>

theorem identify_ready_witness:
  "\<exists>c. handleWSMessage ex_cfg ex_world 2 raw_identify
          (handleConnection ex_cfg ex_world 2 ex_request ex_init) =
        (Returned,
         \<lparr>clients = [Some ''abc'' \<mapsto> c], readyState = (\<lambda>ws. OPEN),
          client_id_prop = [2 \<mapsto> ''abc''], server_clients = [1, 2, 3],
          trace = [Send 2 (Hello 1700000000000), Send 2 (Ready (id_client c) (secret c))]\<rparr>) \<and>
       socket c = 2 \<and>
       secret c = ''YWJj.1700000000000.'' @ concat (replicate 32 ''ab'') \<and>
       count_list (secret c) CHR ''.'' = 2"
proof -
  let ?s = "handleConnection ex_cfg ex_world 2 ex_request ex_init"
  have s: "?s = \<lparr>clients = Map.empty, readyState = (\<lambda>ws. OPEN),
                 client_id_prop = [2 \<mapsto> ''abc''], server_clients = [1, 2, 3],
                 trace = [Send 2 (Hello 1700000000000)]\<rparr>"
    by (simp add: handleConnection_def is_blocked_def source_address_def expire_previous_def
        send_def ex_cfg_def ex_request_def ex_init_def ex_world_def Let_def)
  have p: "parse ex_world raw_identify = Some (JObj [(''op'', JNum 10)])"
    by (simp add: ex_parse_simps)
  have t: "truthy (JObj [(''op'', JNum 10)])"
    by simp
  have o: "get_prop (JObj [(''op'', JNum 10)]) ''op'' = Some (JNum 10)"
    by simp
  have i: "getID ?s 2 = Some ''abc''"
    by (simp add: s getID_def)
  have r: "clients ?s (Some ''abc'') = None"
    by (simp add: s)
  have k: "base64 (utf8 ''abc'') @ ''.'' @ number_toString (now ex_world) @ ''.'' @
             toString_hex (randomBytes ex_world 32) =
           ''YWJj.1700000000000.'' @ concat (replicate 32 ''ab'')"
    using ex_secret_key by (simp only: secret_key_def)
  from identify_ready [OF p t o i r, of ex_cfg]
  obtain c where c: "handleWSMessage ex_cfg ex_world 2 raw_identify ?s =
           (Returned, ?s\<lparr>clients := (clients ?s)(Some ''abc'' \<mapsto> c),
                        trace := trace ?s @ [Send 2 (Ready (id_client c) (secret c))]\<rparr>)"
    "socket c = 2"
    "secret c = base64 (utf8 ''abc'') @ ''.'' @ number_toString (now ex_world) @ ''.'' @
                    toString_hex (randomBytes ex_world 32)"
    "count_list (secret c) CHR ''.'' = 2"
    by blast
  have "handleWSMessage ex_cfg ex_world 2 raw_identify ?s =
        (Returned,
         \<lparr>clients = [Some ''abc'' \<mapsto> c], readyState = (\<lambda>ws. OPEN),
          client_id_prop = [2 \<mapsto> ''abc''], server_clients = [1, 2, 3],
          trace = [Send 2 (Hello 1700000000000), Send 2 (Ready (id_client c) (secret c))]\<rparr>)"
    unfolding c(1) by (simp add: s)
  moreover have "secret c = ''YWJj.1700000000000.'' @ concat (replicate 32 ''ab'')"
    unfolding c(3) by (rule k)
  ultimately show ?thesis
    using c(2,4) by blast
qed

subsection \<open>The takeover, continued\<close>

lemma identify_fresh:
  assumes "parse w msg = Some m" and "truthy m"
    and "get_prop m ''op'' = Some (JNum 10)"
    and "getID s ws = Some i" and "clients s (Some i) = None"
  shows "handleWSMessage cfg w ws msg s =
           (Returned,
            send (s\<lparr>clients := (clients s)(Some i \<mapsto>
                      new_Client w ws (secret_key w i) (updateStatusInterval cfg))\<rparr>)
              ws (Ready (id_client (new_Client w ws (secret_key w i) (updateStatusInterval cfg)))
                    (secret_key w i)))"
  using assms by (simp add: handleWSMessage_def identify_def Let_def)

lemma handleConnection_accepted:
  assumes "\<not> is_blocked cfg req" and "client_id req = Some X" and "X \<noteq> []"
    and "password cfg = [] \<or> authorization req = Some (password cfg)"
  shows "handleConnection cfg w ws req s =
           send ((expire_previous s X)
                   \<lparr>client_id_prop := (client_id_prop (expire_previous s X))(ws \<mapsto> X)\<rparr>)
             ws (Hello (now w))"
  using assms by (auto simp: handleConnection_def Let_def)

lemma expire_previous_fields:
  "clients (expire_previous s X) = clients s"
  "client_id_prop (expire_previous s X) = client_id_prop s"
  by (simp_all add: expire_previous_def ws_close_fields split: option.split)

text \<open>
  The takeover, continued: once the old channel has had its close event, the new
  channel identifies, and the registry holds the new session for \<open>X\<close> in place of the
  old one.
\<close>

lemma takeover_then_identify:
  assumes "\<not> is_blocked cfg req" and "client_id req = Some X" and "X \<noteq> []"
    and "password cfg = [] \<or> authorization req = Some (password cfg)"
    and "clients s (Some X) = Some c" and "getID s (socket c) = Some X" and "socket c \<noteq> ws"
    and "parse w msg = Some m" and "truthy m" and "get_prop m ''op'' = Some (JNum 10)"
  shows "\<exists>c'. clients (snd (handleWSMessage cfg w ws msg
                  (emit_close w (socket c) (handleConnection cfg w ws req s)))) =
               (clients s)(Some X \<mapsto> c') \<and> socket c' = ws"
proof -
  let ?s1 = "handleConnection cfg w ws req s"
  let ?s2 = "emit_close w (socket c) ?s1"
  let ?c = "new_Client w ws (secret_key w X) (updateStatusInterval cfg)"
  have s1: "clients ?s1 = clients s" "client_id_prop ?s1 = (client_id_prop s)(ws \<mapsto> X)"
    unfolding handleConnection_accepted [OF assms(1-4)]
    by (simp_all add: send_def expire_previous_fields)
  have old: "getID ?s1 (socket c) = Some X"
    using assms(6,7) by (simp add: getID_def s1)
  have s2: "clients ?s2 = (clients s)(Some X := None)"
    unfolding emit_close_eq [OF old] by (simp add: close_listener_clients s1)
  have "client_id_prop ?s2 = client_id_prop ?s1"
    unfolding emit_close_eq [OF old]
    by (simp add: close_listener_def Let_def kill_each_fields split: option.split)
  then have i: "getID ?s2 ws = Some X"
    by (simp add: getID_def s1)
  have r: "clients ?s2 (Some X) = None"
    by (simp add: s2)
  have "clients (snd (handleWSMessage cfg w ws msg ?s2)) = (clients s)(Some X \<mapsto> ?c)"
    unfolding identify_fresh [OF assms(8,9,10) i r] by (simp add: send_def s2)
  moreover have "socket ?c = ws"
    by (simp add: new_Client_def)
  ultimately show ?thesis
    by blast
qed

section \<open>Dispatch of voice messages\<close>

text \<open>
  Every dispatch message of an identified channel whose payload \<^verbatim>\<open>d\<close> is missing or
  \<^verbatim>\<open>null\<close> leaves \<^verbatim>\<open>handleWSMessage\<close> by a \<^verbatim>\<open>TypeError\<close>, for both voice types.
\<close>

lemma nullish_payload_throws:
  assumes "parse w msg = Some m" and "truthy m"
    and "get_prop m ''op'' \<noteq> Some (JNum 10)"
    and "clients s (getID s ws) = Some c"
    and "get_prop m ''t'' = Some (JStr VoiceStateUpdate) \<or>
         get_prop m ''t'' = Some (JStr VoiceServerUpdate)"
    and "get_prop m ''d'' = None \<or> get_prop m ''d'' = Some JNull"
  shows "handleWSMessage cfg w ws msg s = (Thrown TypeError, s)"
  using assms
  by (auto simp: handleWSMessage_def route_def voice_state_update_def voice_server_update_def
      VoiceStateUpdate_def VoiceServerUpdate_def)

text \<open>
  With a payload that is an object, a guild without adapter is a miss that returns
  normally and changes nothing.
\<close>

lemma unknown_adapter_dropped:
  assumes "parse w msg = Some m" and "truthy m"
    and "get_prop m ''op'' \<noteq> Some (JNum 10)"
    and "clients s (getID s ws) = Some c"
    and "get_prop m ''d'' = Some d" and "d \<noteq> JNull"
    and "adapter_get c (get_prop d ''guild_id'') = None"
  shows "handleWSMessage cfg w ws msg s = (Returned, s)"
  using assms
  by (auto simp: handleWSMessage_def route_def voice_state_update_def voice_server_update_def)

text \<open>
  Claim C3 says that a malformed voice payload, such as a voice-state-update message
  without data payload, is dropped without an error. On the identified channel 1 the
  message \<^verbatim>\<open>{"t":"VOICE_STATE_UPDATE"}\<close> decodes, finds its session, and reading
  \<^verbatim>\<open>message.d.guild_id\<close> throws: \<^verbatim>\<open>handleWSMessage\<close> ends with a \<^verbatim>\<open>TypeError\<close>
  instead of returning.
\<close>

theorem missing_payload_throws:
  "parse ex_world raw_state_no_d = Some (JObj [(''t'', JStr ''VOICE_STATE_UPDATE'')]) \<and>
   clients ex_identified (getID ex_identified 1) = Some ex_session \<and>
   handleWSMessage ex_cfg ex_world 1 raw_state_no_d ex_identified =
     (Thrown TypeError, ex_identified)"
proof -
  have c: "clients ex_identified (getID ex_identified 1) = Some ex_session"
    by (simp add: getID_def ex_identified_def)
  then show ?thesis
    by (simp add: ex_parse_simps handleWSMessage_def route_def voice_state_update_def
        VoiceStateUpdate_def)
qed

text \<open>
  Claim C4. A voice-state-update message arrives on a channel of identity \<open>X\<close> whose
  session is registered (the channel of that session carries \<open>X\<close> too). If its payload
  is missing, or lacks a \<^verbatim>\<open>guild_id\<close> or a \<^verbatim>\<open>session_id\<close> (the value is absent or
  counts as false, as the empty string does), or its \<^verbatim>\<open>user_id\<close> is not \<open>X\<close>, the
  state with its trace is unchanged: no adapter is invoked. If \<^verbatim>\<open>guild_id\<close> and
  \<^verbatim>\<open>session_id\<close> are there and \<^verbatim>\<open>user_id\<close> is \<open>X\<close>, the function returns and its
  only event is \<^verbatim>\<open>onVoiceStateUpdate\<close> of the adapter stored for that guild in the
  session, with the payload; there is no event when no adapter is stored for it.
\<close>

theorem voice_state_self_authorization:
  assumes "parse w msg = Some m" and "truthy m"
    and "get_prop m ''op'' \<noteq> Some (JNum 10)"
    and "get_prop m ''t'' = Some (JStr VoiceStateUpdate)"
    and "getID s ws = Some X" and "clients s (Some X) = Some c"
    and "getID s (socket c) = Some X"
  shows "((\<forall>d. get_prop m ''d'' = Some d \<longrightarrow>
             \<not> (truthy_opt (get_prop d ''guild_id'') \<and> truthy_opt (get_prop d ''session_id'') \<and>
                get_prop d ''user_id'' = Some (JStr X))) \<longrightarrow>
           snd (handleWSMessage cfg w ws msg s) = s) \<and>
         (\<forall>d. get_prop m ''d'' = Some d \<and>
              truthy_opt (get_prop d ''guild_id'') \<and> truthy_opt (get_prop d ''session_id'') \<and>
              get_prop d ''user_id'' = Some (JStr X) \<longrightarrow>
              handleWSMessage cfg w ws msg s =
                (Returned,
                 case adapter_get c (get_prop d ''guild_id'') of
                   None \<Rightarrow> s
                 | Some a \<Rightarrow> s\<lparr>trace := trace s @ [OnVoiceStateUpdate a d]\<rparr>))"
proof -
  have h: "handleWSMessage cfg w ws msg s = voice_state_update c (get_prop m ''d'') s"
    using assms by (simp add: handleWSMessage_def route_def)
  have "snd (voice_state_update c (get_prop m ''d'') s) = s"
    if "\<forall>d. get_prop m ''d'' = Some d \<longrightarrow>
             \<not> (truthy_opt (get_prop d ''guild_id'') \<and> truthy_opt (get_prop d ''session_id'') \<and>
                get_prop d ''user_id'' = Some (JStr X))"
    using that assms(7)
    by (auto simp: voice_state_update_def strict_eq_id_def split: option.splits)
  moreover have "voice_state_update c (get_prop m ''d'') s =
                (Returned,
                 case adapter_get c (get_prop d ''guild_id'') of
                   None \<Rightarrow> s
                 | Some a \<Rightarrow> s\<lparr>trace := trace s @ [OnVoiceStateUpdate a d]\<rparr>)"
    if "get_prop m ''d'' = Some d" and "truthy_opt (get_prop d ''guild_id'')"
      and "truthy_opt (get_prop d ''session_id'')" and "get_prop d ''user_id'' = Some (JStr X)" for d
  proof -
    have "d \<noteq> JNull"
      using that(2) by (auto simp: truthy_opt_def)
    then show ?thesis
      using that assms(7)
      by (simp add: voice_state_update_def strict_eq_id_def split: option.splits)
  qed
  ultimately show ?thesis
    unfolding h by blast
qed

text \<open>
  On channel 1 of \<^verbatim>\<open>abc\<close>: a voice state of user \<^verbatim>\<open>mallory\<close> is dropped, a voice
  state of \<^verbatim>\<open>abc\<close> for guild \<^verbatim>\<open>g1\<close> reaches adapter 7, the adapter of \<^verbatim>\<open>g1\<close>.
\<close>

theorem voice_state_self_authorization_witness:
  "snd (handleWSMessage ex_cfg ex_world 1
          (raw_voice ''VOICE_STATE_UPDATE'' ''g1'' ''s1'' ''mallory'') ex_identified) =
     ex_identified \<and>
   handleWSMessage ex_cfg ex_world 1
          (raw_voice ''VOICE_STATE_UPDATE'' ''g1'' ''s1'' ''abc'') ex_identified =
     (Returned,
      ex_identified\<lparr>trace :=
        [OnVoiceStateUpdate 7
           (JObj [(''guild_id'', JStr ''g1''), (''session_id'', JStr ''s1''),
                  (''user_id'', JStr ''abc'')])]\<rparr>)"
proof -
  let ?m1 = "json_voice ''VOICE_STATE_UPDATE'' ''g1'' ''s1'' ''mallory''"
  let ?m2 = "json_voice ''VOICE_STATE_UPDATE'' ''g1'' ''s1'' ''abc''"
  have p: "parse ex_world (raw_voice ''VOICE_STATE_UPDATE'' ''g1'' ''s1'' ''mallory'') = Some ?m1"
    "parse ex_world (raw_voice ''VOICE_STATE_UPDATE'' ''g1'' ''s1'' ''abc'') = Some ?m2"
    by (simp_all add: ex_parse_simps)
  have t: "truthy ?m1" "truthy ?m2"
    by (simp_all add: json_voice_def)
  have o: "get_prop ?m1 ''op'' \<noteq> Some (JNum 10)" "get_prop ?m2 ''op'' \<noteq> Some (JNum 10)"
    by (simp_all add: json_voice_def)
  have k: "get_prop ?m1 ''t'' = Some (JStr VoiceStateUpdate)"
    "get_prop ?m2 ''t'' = Some (JStr VoiceStateUpdate)"
    by (simp_all add: json_voice_def VoiceStateUpdate_def)
  have i: "getID ex_identified 1 = Some ''abc''"
    by (simp add: getID_def ex_identified_def)
  have c: "clients ex_identified (Some ''abc'') = Some ex_session"
    by (simp add: ex_identified_def)
  have j: "getID ex_identified (socket ex_session) = Some ''abc''"
    by (simp add: getID_def ex_identified_def ex_session_def)
  have d: "get_prop ?m1 ''d'' =
             Some (JObj [(''guild_id'', JStr ''g1''), (''session_id'', JStr ''s1''),
                         (''user_id'', JStr ''mallory'')])"
    "get_prop ?m2 ''d'' =
             Some (JObj [(''guild_id'', JStr ''g1''), (''session_id'', JStr ''s1''),
                         (''user_id'', JStr ''abc'')])"
    by (simp_all add: json_voice_def)
  have a: "adapter_get ex_session (Some (JStr ''g1'')) = Some 7"
    by (simp add: adapter_get_def ex_session_def)
  have e: "trace ex_identified = []"
    by (simp add: ex_identified_def)
  show ?thesis
    using voice_state_self_authorization [OF p(1) t(1) o(1) k(1) i c j, of ex_cfg]
      voice_state_self_authorization [OF p(2) t(2) o(2) k(2) i c j, of ex_cfg]
    by (simp add: d a e truthy_opt_def)
qed

section \<open>Shutdown\<close>

lemma close_each_fields:
  "clients (close_each cs s) = clients s"
  "client_id_prop (close_each cs s) = client_id_prop s"
  "server_clients (close_each cs s) = server_clients s"
  by (induction cs arbitrary: s) (simp_all add: ws_close_fields)

lemma close_each_trace:
  "distinct cs \<Longrightarrow>
   trace (close_each cs s) =
     trace s @ map (\<lambda>c. Close c SERVER_CLOSED) (filter (\<lambda>c. readyState s c = OPEN) cs)"
proof (induction cs arbitrary: s)
  case Nil
  show ?case by simp
next
  case (Cons c cs)
  let ?s1 = "if readyState s c \<noteq> OPEN then s else ws_close s c SERVER_CLOSED"
  have same: "filter (\<lambda>x. readyState ?s1 x = OPEN) cs = filter (\<lambda>x. readyState s x = OPEN) cs"
    using Cons.prems by (intro filter_cong) (auto simp: ws_close_readyState)
  have "trace (close_each (c # cs) s) = trace (close_each cs ?s1)"
    by simp
  also have "\<dots> = trace ?s1 @
      map (\<lambda>c. Close c SERVER_CLOSED) (filter (\<lambda>x. readyState ?s1 x = OPEN) cs)"
    using Cons.prems by (intro Cons.IH) simp
  also have "\<dots> = trace s @
      map (\<lambda>c. Close c SERVER_CLOSED) (filter (\<lambda>x. readyState s x = OPEN) (c # cs))"
    unfolding same by (simp add: ws_close_fields)
  finally show ?case .
qed

text \<open>
  Claim C8. \<^verbatim>\<open>close\<close> calls \<^verbatim>\<open>close\<close> with \<^verbatim>\<open>SERVER_CLOSED\<close> on every channel of
  the server (a set, so each occurs once) whose state is \<^verbatim>\<open>OPEN\<close>, on no other
  channel, then closes the acceptor, and leaves the registry empty.
\<close>

theorem close_closes_open_channels:
  assumes "distinct (server_clients s)"
  shows "trace (close s) =
           trace s @
           map (\<lambda>c. Close c SERVER_CLOSED)
             (filter (\<lambda>c. readyState s c = OPEN) (server_clients s)) @
           [ServerClose] \<and>
         clients (close s) = Map.empty"
  using assms by (simp add: close_def Let_def close_each_trace)

text \<open>
  Shutdown with channels 1 and 3 open and channel 2 closing, and one registered session.
\<close>

theorem close_closes_open_channels_witness:
  "trace (close (ex_identified\<lparr>readyState := (\<lambda>ws. OPEN)(2 := CLOSING)\<rparr>)) =
     [Close 1 SERVER_CLOSED, Close 3 SERVER_CLOSED, ServerClose] \<and>
   clients (close (ex_identified\<lparr>readyState := (\<lambda>ws. OPEN)(2 := CLOSING)\<rparr>)) = Map.empty"
proof -
  have d: "distinct (server_clients (ex_identified\<lparr>readyState := (\<lambda>ws. OPEN)(2 := CLOSING)\<rparr>))"
    by (simp add: ex_identified_def)
  show ?thesis
    using close_closes_open_channels [OF d] by (simp add: ex_identified_def)
qed

end
